theory Spec2Isabelle
  imports Main "HOL-Library.Word"
begin

section \<open>Idempotent registration and stake reconciliation (lib/repo_tx_registration.go)\<close>

subsection \<open>Data\<close>

text \<open>
  Addresses and transaction hashes are Go strings. A topic id is a \<open>uint64\<close>
  (it is logged with \<open>Uint64\<close>); \<open>MinStake\<close> is an \<open>int64\<close> (it is the argument of
  \<open>cosmossdk_io_math.NewInt\<close>). Amounts (balance, registration fee, stake) are
  \<open>cosmossdk_io_math.Int\<close>, the big integer of an external library: they are HOL
  integers, \<open>GTE\<close>, \<open>LTE\<close>, \<open>LT\<close> are \<open>\<ge>\<close>, \<open>\<le>\<close>, \<open><\<close> and \<open>Sub\<close> is subtraction.
  The library's own range check on results (256 bits) is outside this model.

  Of the node, the two functions use the chain address (\<open>node.Chain.Address\<close>), the
  wallet address (\<open>node.Wallet.Address\<close>) and the methods that talk to the chain; of
  the two configurations, the topic id and \<open>MinStake\<close>.
\<close>

type_synonym address = string
type_synonym topic_id = "64 word"

datatype error = Error string

record NodeConfig =
  Chain_Address :: address
  Wallet_Address :: address

record WorkerConfig =
  worker_TopicId :: topic_id

record ReputerConfig =
  reputer_TopicId :: topic_id
  MinStake :: "64 word"

record ModuleParams =
  RegistrationFee :: int

record RegisterRequest =
  register_Sender :: address
  register_TopicId :: topic_id
  register_Owner :: address
  register_IsReputer :: bool

record AddStakeRequest =
  stake_Sender :: address
  stake_Amount :: int
  stake_TopicId :: topic_id

datatype msg = MsgRegister RegisterRequest | MsgAddStake AddStakeRequest

record TxResponse =
  TxHash :: string

definition NewInt :: "64 word \<Rightarrow> int" where
  "NewInt n = sint n"

subsection \<open>The ledger client and the log of its calls\<close>

text \<open>
  The methods of the node that talk to the chain (\<open>IsWorkerRegistered\<close>,
  \<open>IsReputerRegistered\<close>, \<open>GetParams\<close>, \<open>GetBalance\<close>, \<open>GetReputerStakeInTopic\<close>,
  \<open>SendDataWithRetry\<close>) are defined in other files; they are parameters here. Each one
  is an arbitrary function of the state of the outside world \<open>'w\<close>: it answers and
  may change that state, so that two reads may differ and a submission may change
  the ledger whatever it reports. A read returns a value or an error; a submission
  returns the pair \<open>(res, err)\<close> of Go, where \<open>res\<close> may be nil.
\<close>

record 'w client =
  IsWorkerRegistered :: "topic_id \<Rightarrow> 'w \<Rightarrow> (error + bool) \<times> 'w"
  IsReputerRegistered :: "topic_id \<Rightarrow> 'w \<Rightarrow> (error + bool) \<times> 'w"
  GetParams :: "'w \<Rightarrow> (error + ModuleParams) \<times> 'w"
  GetBalance :: "'w \<Rightarrow> (error + int) \<times> 'w"
  GetReputerStakeInTopic :: "topic_id \<Rightarrow> address \<Rightarrow> 'w \<Rightarrow> (error + int) \<times> 'w"
  SendDataWithRetry :: "msg \<Rightarrow> 'w \<Rightarrow> (TxResponse option \<times> error option) \<times> 'w"

text \<open>Every call of the client is logged with its arguments and its answer, in order.\<close>

datatype event =
    EvIsWorkerRegistered topic_id "error + bool"
  | EvIsReputerRegistered topic_id "error + bool"
  | EvGetParams "error + ModuleParams"
  | EvGetBalance "error + int"
  | EvGetReputerStakeInTopic topic_id address "error + int"
  | EvSendDataWithRetry msg "TxResponse option \<times> error option"

record 'w run =
  world :: 'w
  history :: "event list"

definition perform :: "('w \<Rightarrow> 'a \<times> 'w) \<Rightarrow> ('a \<Rightarrow> event) \<Rightarrow> 'w run \<Rightarrow> 'a \<times> 'w run" where
  "perform op ev s =
     (case op (world s) of
        (r, w') \<Rightarrow> (r, \<lparr>world = w', history = history s @ [ev r]\<rparr>))"

definition call_IsWorkerRegistered ::
  "'w client \<Rightarrow> topic_id \<Rightarrow> 'w run \<Rightarrow> (error + bool) \<times> 'w run" where
  "call_IsWorkerRegistered cl t = perform (IsWorkerRegistered cl t) (EvIsWorkerRegistered t)"

definition call_IsReputerRegistered ::
  "'w client \<Rightarrow> topic_id \<Rightarrow> 'w run \<Rightarrow> (error + bool) \<times> 'w run" where
  "call_IsReputerRegistered cl t = perform (IsReputerRegistered cl t) (EvIsReputerRegistered t)"

definition call_GetParams :: "'w client \<Rightarrow> 'w run \<Rightarrow> (error + ModuleParams) \<times> 'w run" where
  "call_GetParams cl = perform (GetParams cl) EvGetParams"

definition call_GetBalance :: "'w client \<Rightarrow> 'w run \<Rightarrow> (error + int) \<times> 'w run" where
  "call_GetBalance cl = perform (GetBalance cl) EvGetBalance"

definition call_GetReputerStakeInTopic ::
  "'w client \<Rightarrow> topic_id \<Rightarrow> address \<Rightarrow> 'w run \<Rightarrow> (error + int) \<times> 'w run" where
  "call_GetReputerStakeInTopic cl t a =
     perform (GetReputerStakeInTopic cl t a) (EvGetReputerStakeInTopic t a)"

definition call_SendDataWithRetry ::
  "'w client \<Rightarrow> msg \<Rightarrow> 'w run \<Rightarrow> (TxResponse option \<times> error option) \<times> 'w run" where
  "call_SendDataWithRetry cl m = perform (SendDataWithRetry cl m) (EvSendDataWithRetry m)"

subsection \<open>The two entry points\<close>

text \<open>
  Each \<open>return\<close> of the Go function is a leaf of the expression, in the order of the
  source; logging is left out. The result is the returned boolean with the state and
  the log after the call.
\<close>

definition RegisterWorkerIdempotently ::
  "'w client \<Rightarrow> NodeConfig \<Rightarrow> WorkerConfig \<Rightarrow> 'w run \<Rightarrow> bool \<times> 'w run" where
  "RegisterWorkerIdempotently cl node config s0 =
     (case call_IsWorkerRegistered cl (worker_TopicId config) s0 of
        (Inl err, s1) \<Rightarrow> (False, s1)
      | (Inr isRegistered, s1) \<Rightarrow>
          if isRegistered then (True, s1)
          else
            (case call_GetParams cl s1 of
               (Inl err, s2) \<Rightarrow> (False, s2)
             | (Inr moduleParams, s2) \<Rightarrow>
                 (case call_GetBalance cl s2 of
                    (Inl err, s3) \<Rightarrow> (False, s3)
                  | (Inr balance, s3) \<Rightarrow>
                      if \<not> (balance \<ge> RegistrationFee moduleParams) then (False, s3)
                      else
                        let msg = MsgRegister
                              \<lparr>register_Sender = Chain_Address node,
                               register_TopicId = worker_TopicId config,
                               register_Owner = Chain_Address node,
                               register_IsReputer = False\<rparr>
                        in
                        (case call_SendDataWithRetry cl msg s3 of
                           ((res, Some err), s4) \<Rightarrow> (False, s4)
                         | ((res, None), s4) \<Rightarrow>
                             (case call_IsWorkerRegistered cl (worker_TopicId config) s4 of
                                (Inl err, s5) \<Rightarrow> (False, s5)
                              | (Inr isRegistered, s5) \<Rightarrow> (isRegistered, s5))))))"

text \<open>The stake phase of the reputer path (from the first stake read on).\<close>

definition stake_phase ::
  "'w client \<Rightarrow> NodeConfig \<Rightarrow> ReputerConfig \<Rightarrow> 'w run \<Rightarrow> bool \<times> 'w run" where
  "stake_phase cl node config s0 =
     (case call_GetReputerStakeInTopic cl (reputer_TopicId config) (Chain_Address node) s0 of
        (Inl err, s1) \<Rightarrow> (False, s1)
      | (Inr stake, s1) \<Rightarrow>
          let minStake = NewInt (MinStake config) in
          if minStake \<le> stake then (True, s1)
          else
            let msgAddStake = MsgAddStake
                  \<lparr>stake_Sender = Wallet_Address node,
                   stake_Amount = minStake - stake,
                   stake_TopicId = reputer_TopicId config\<rparr>
            in
            (case call_SendDataWithRetry cl msgAddStake s1 of
               ((res, Some err), s2) \<Rightarrow> (False, s2)
             | ((res, None), s2) \<Rightarrow>
                 (case call_GetReputerStakeInTopic cl (reputer_TopicId config)
                         (Chain_Address node) s2 of
                    (Inl err, s3) \<Rightarrow> (False, s3)
                  | (Inr stake', s3) \<Rightarrow>
                      if stake' < minStake then (False, s3) else (True, s3))))"

definition RegisterAndStakeReputerIdempotently ::
  "'w client \<Rightarrow> NodeConfig \<Rightarrow> ReputerConfig \<Rightarrow> 'w run \<Rightarrow> bool \<times> 'w run" where
  "RegisterAndStakeReputerIdempotently cl node config s0 =
     (case call_IsReputerRegistered cl (reputer_TopicId config) s0 of
        (Inl err, s1) \<Rightarrow> (False, s1)
      | (Inr isRegistered, s1) \<Rightarrow>
          if isRegistered then stake_phase cl node config s1
          else
            (case call_GetBalance cl s1 of
               (Inl err, s2) \<Rightarrow> (False, s2)
             | (Inr balance, s2) \<Rightarrow>
                 (case call_GetParams cl s2 of
                    (Inl err, s3) \<Rightarrow> (False, s3)
                  | (Inr moduleParams, s3) \<Rightarrow>
                      if \<not> (balance \<ge> RegistrationFee moduleParams) then (False, s3)
                      else
                        let msgRegister = MsgRegister
                              \<lparr>register_Sender = Chain_Address node,
                               register_TopicId = reputer_TopicId config,
                               register_Owner = Chain_Address node,
                               register_IsReputer = True\<rparr>
                        in
                        (case call_SendDataWithRetry cl msgRegister s3 of
                           ((res, Some err), s4) \<Rightarrow> (False, s4)
                         | ((res, None), s4) \<Rightarrow>
                             (case call_IsReputerRegistered cl (reputer_TopicId config) s4 of
                                (Inl err, s5) \<Rightarrow> (False, s5)
                              | (Inr isRegistered', s5) \<Rightarrow>
                                  if \<not> isRegistered' then (False, s5)
                                  else stake_phase cl node config s5)))))"

subsection \<open>Reading a log\<close>

fun is_submission :: "event \<Rightarrow> bool" where
  "is_submission (EvSendDataWithRetry m r) = True"
| "is_submission e = False"

fun is_failed_read :: "event \<Rightarrow> bool" where
  "is_failed_read (EvIsWorkerRegistered t (Inl e)) = True"
| "is_failed_read (EvIsReputerRegistered t (Inl e)) = True"
| "is_failed_read (EvGetParams (Inl e)) = True"
| "is_failed_read (EvGetBalance (Inl e)) = True"
| "is_failed_read (EvGetReputerStakeInTopic t a (Inl e)) = True"
| "is_failed_read e = False"

fun is_funds_read :: "event \<Rightarrow> bool" where
  "is_funds_read (EvGetParams r) = True"
| "is_funds_read (EvGetBalance r) = True"
| "is_funds_read e = False"

fun register_requests :: "event list \<Rightarrow> RegisterRequest list" where
  "register_requests [] = []"
| "register_requests (EvSendDataWithRetry (MsgRegister q) r # es) = q # register_requests es"
| "register_requests (e # es) = register_requests es"

fun add_stake_requests :: "event list \<Rightarrow> AddStakeRequest list" where
  "add_stake_requests [] = []"
| "add_stake_requests (EvSendDataWithRetry (MsgAddStake q) r # es) = q # add_stake_requests es"
| "add_stake_requests (e # es) = add_stake_requests es"

subsection \<open>The logs a call can leave\<close>

text \<open>
  One rule for each \<open>return\<close> of the source: the events the call adds to the log up to
  that \<open>return\<close>, and the boolean returned there.
\<close>

inductive worker_paths :: "NodeConfig \<Rightarrow> WorkerConfig \<Rightarrow> event list \<Rightarrow> bool \<Rightarrow> bool"
  for node :: NodeConfig and config :: WorkerConfig where
  worker_status_failed:
    "worker_paths node config [EvIsWorkerRegistered (worker_TopicId config) (Inl e)] False"
| worker_already:
    "worker_paths node config [EvIsWorkerRegistered (worker_TopicId config) (Inr True)] True"
| worker_params_failed:
    "worker_paths node config
       [EvIsWorkerRegistered (worker_TopicId config) (Inr False), EvGetParams (Inl e)] False"
| worker_balance_failed:
    "worker_paths node config
       [EvIsWorkerRegistered (worker_TopicId config) (Inr False), EvGetParams (Inr p),
        EvGetBalance (Inl e)] False"
| worker_underfunded:
    "b < RegistrationFee p \<Longrightarrow>
     worker_paths node config
       [EvIsWorkerRegistered (worker_TopicId config) (Inr False), EvGetParams (Inr p),
        EvGetBalance (Inr b)] False"
| worker_send_failed:
    "RegistrationFee p \<le> b \<Longrightarrow>
     q = \<lparr>register_Sender = Chain_Address node, register_TopicId = worker_TopicId config,
          register_Owner = Chain_Address node, register_IsReputer = False\<rparr> \<Longrightarrow>
     worker_paths node config
       [EvIsWorkerRegistered (worker_TopicId config) (Inr False), EvGetParams (Inr p),
        EvGetBalance (Inr b), EvSendDataWithRetry (MsgRegister q) (res, Some e)] False"
| worker_recheck_failed:
    "RegistrationFee p \<le> b \<Longrightarrow>
     q = \<lparr>register_Sender = Chain_Address node, register_TopicId = worker_TopicId config,
          register_Owner = Chain_Address node, register_IsReputer = False\<rparr> \<Longrightarrow>
     worker_paths node config
       [EvIsWorkerRegistered (worker_TopicId config) (Inr False), EvGetParams (Inr p),
        EvGetBalance (Inr b), EvSendDataWithRetry (MsgRegister q) (res, None),
        EvIsWorkerRegistered (worker_TopicId config) (Inl e)] False"
| worker_rechecked:
    "RegistrationFee p \<le> b \<Longrightarrow>
     q = \<lparr>register_Sender = Chain_Address node, register_TopicId = worker_TopicId config,
          register_Owner = Chain_Address node, register_IsReputer = False\<rparr> \<Longrightarrow>
     worker_paths node config
       [EvIsWorkerRegistered (worker_TopicId config) (Inr False), EvGetParams (Inr p),
        EvGetBalance (Inr b), EvSendDataWithRetry (MsgRegister q) (res, None),
        EvIsWorkerRegistered (worker_TopicId config) (Inr isRegistered)] isRegistered"

inductive stake_paths :: "NodeConfig \<Rightarrow> ReputerConfig \<Rightarrow> event list \<Rightarrow> bool \<Rightarrow> bool"
  for node :: NodeConfig and config :: ReputerConfig where
  stake_read_failed:
    "stake_paths node config
       [EvGetReputerStakeInTopic (reputer_TopicId config) (Chain_Address node) (Inl e)] False"
| stake_enough:
    "NewInt (MinStake config) \<le> S \<Longrightarrow>
     stake_paths node config
       [EvGetReputerStakeInTopic (reputer_TopicId config) (Chain_Address node) (Inr S)] True"
| stake_send_failed:
    "S < NewInt (MinStake config) \<Longrightarrow>
     q = \<lparr>stake_Sender = Wallet_Address node, stake_Amount = NewInt (MinStake config) - S,
          stake_TopicId = reputer_TopicId config\<rparr> \<Longrightarrow>
     stake_paths node config
       [EvGetReputerStakeInTopic (reputer_TopicId config) (Chain_Address node) (Inr S),
        EvSendDataWithRetry (MsgAddStake q) (res, Some e)] False"
| stake_recheck_failed:
    "S < NewInt (MinStake config) \<Longrightarrow>
     q = \<lparr>stake_Sender = Wallet_Address node, stake_Amount = NewInt (MinStake config) - S,
          stake_TopicId = reputer_TopicId config\<rparr> \<Longrightarrow>
     stake_paths node config
       [EvGetReputerStakeInTopic (reputer_TopicId config) (Chain_Address node) (Inr S),
        EvSendDataWithRetry (MsgAddStake q) (res, None),
        EvGetReputerStakeInTopic (reputer_TopicId config) (Chain_Address node) (Inl e)] False"
| stake_still_short:
    "S < NewInt (MinStake config) \<Longrightarrow>
     q = \<lparr>stake_Sender = Wallet_Address node, stake_Amount = NewInt (MinStake config) - S,
          stake_TopicId = reputer_TopicId config\<rparr> \<Longrightarrow>
     S' < NewInt (MinStake config) \<Longrightarrow>
     stake_paths node config
       [EvGetReputerStakeInTopic (reputer_TopicId config) (Chain_Address node) (Inr S),
        EvSendDataWithRetry (MsgAddStake q) (res, None),
        EvGetReputerStakeInTopic (reputer_TopicId config) (Chain_Address node) (Inr S')] False"
| stake_reached:
    "S < NewInt (MinStake config) \<Longrightarrow>
     q = \<lparr>stake_Sender = Wallet_Address node, stake_Amount = NewInt (MinStake config) - S,
          stake_TopicId = reputer_TopicId config\<rparr> \<Longrightarrow>
     NewInt (MinStake config) \<le> S' \<Longrightarrow>
     stake_paths node config
       [EvGetReputerStakeInTopic (reputer_TopicId config) (Chain_Address node) (Inr S),
        EvSendDataWithRetry (MsgAddStake q) (res, None),
        EvGetReputerStakeInTopic (reputer_TopicId config) (Chain_Address node) (Inr S')] True"

inductive reputer_paths :: "NodeConfig \<Rightarrow> ReputerConfig \<Rightarrow> event list \<Rightarrow> bool \<Rightarrow> bool"
  for node :: NodeConfig and config :: ReputerConfig where
  reputer_status_failed:
    "reputer_paths node config [EvIsReputerRegistered (reputer_TopicId config) (Inl e)] False"
| reputer_already:
    "stake_paths node config t r \<Longrightarrow>
     reputer_paths node config (EvIsReputerRegistered (reputer_TopicId config) (Inr True) # t) r"
| reputer_balance_failed:
    "reputer_paths node config
       [EvIsReputerRegistered (reputer_TopicId config) (Inr False), EvGetBalance (Inl e)] False"
| reputer_params_failed:
    "reputer_paths node config
       [EvIsReputerRegistered (reputer_TopicId config) (Inr False), EvGetBalance (Inr b),
        EvGetParams (Inl e)] False"
| reputer_underfunded:
    "b < RegistrationFee p \<Longrightarrow>
     reputer_paths node config
       [EvIsReputerRegistered (reputer_TopicId config) (Inr False), EvGetBalance (Inr b),
        EvGetParams (Inr p)] False"
| reputer_send_failed:
    "RegistrationFee p \<le> b \<Longrightarrow>
     q = \<lparr>register_Sender = Chain_Address node, register_TopicId = reputer_TopicId config,
          register_Owner = Chain_Address node, register_IsReputer = True\<rparr> \<Longrightarrow>
     reputer_paths node config
       [EvIsReputerRegistered (reputer_TopicId config) (Inr False), EvGetBalance (Inr b),
        EvGetParams (Inr p), EvSendDataWithRetry (MsgRegister q) (res, Some e)] False"
| reputer_recheck_failed:
    "RegistrationFee p \<le> b \<Longrightarrow>
     q = \<lparr>register_Sender = Chain_Address node, register_TopicId = reputer_TopicId config,
          register_Owner = Chain_Address node, register_IsReputer = True\<rparr> \<Longrightarrow>
     reputer_paths node config
       [EvIsReputerRegistered (reputer_TopicId config) (Inr False), EvGetBalance (Inr b),
        EvGetParams (Inr p), EvSendDataWithRetry (MsgRegister q) (res, None),
        EvIsReputerRegistered (reputer_TopicId config) (Inl e)] False"
| reputer_still_unregistered:
    "RegistrationFee p \<le> b \<Longrightarrow>
     q = \<lparr>register_Sender = Chain_Address node, register_TopicId = reputer_TopicId config,
          register_Owner = Chain_Address node, register_IsReputer = True\<rparr> \<Longrightarrow>
     reputer_paths node config
       [EvIsReputerRegistered (reputer_TopicId config) (Inr False), EvGetBalance (Inr b),
        EvGetParams (Inr p), EvSendDataWithRetry (MsgRegister q) (res, None),
        EvIsReputerRegistered (reputer_TopicId config) (Inr False)] False"
| reputer_registered_now:
    "RegistrationFee p \<le> b \<Longrightarrow>
     q = \<lparr>register_Sender = Chain_Address node, register_TopicId = reputer_TopicId config,
          register_Owner = Chain_Address node, register_IsReputer = True\<rparr> \<Longrightarrow>
     stake_paths node config t r \<Longrightarrow>
     reputer_paths node config
       (EvIsReputerRegistered (reputer_TopicId config) (Inr False) # EvGetBalance (Inr b) #
        EvGetParams (Inr p) # EvSendDataWithRetry (MsgRegister q) (res, None) #
        EvIsReputerRegistered (reputer_TopicId config) (Inr True) # t) r"

subsection \<open>What one call adds to the log\<close>

definition new_events :: "'w run \<Rightarrow> bool \<times> 'w run \<Rightarrow> event list" where
  "new_events s0 out = drop (length (history s0)) (history (snd out))"

definition worker_events ::
  "'w client \<Rightarrow> NodeConfig \<Rightarrow> WorkerConfig \<Rightarrow> 'w run \<Rightarrow> event list" where
  "worker_events cl node config s0 =
     new_events s0 (RegisterWorkerIdempotently cl node config s0)"

definition reputer_events ::
  "'w client \<Rightarrow> NodeConfig \<Rightarrow> ReputerConfig \<Rightarrow> 'w run \<Rightarrow> event list" where
  "reputer_events cl node config s0 =
     new_events s0 (RegisterAndStakeReputerIdempotently cl node config s0)"

fun first_stake_read :: "event list \<Rightarrow> (error + int) option" where
  "first_stake_read [] = None"
| "first_stake_read (EvGetReputerStakeInTopic t a x # es) = Some x"
| "first_stake_read (e # es) = first_stake_read es"

subsection \<open>A simulated ledger\<close>

text \<open>
  A small ledger to run the two entry points on. It answers \<open>answers\<close> more calls and is
  unreachable after that. A submission it answers is applied in full and reported as
  sent (\<open>Faithful\<close>), applied in full and reported as failed (\<open>ErrorAfterLanding\<close>), or
  reported as sent and applied in part only: a registration not at all, a stake for
  half the amount (\<open>Incomplete\<close>).
\<close>

record chain =
  worker_registered :: bool
  reputer_registered :: bool
  funds :: int
  staked :: int
  answers :: nat

datatype behaviour = Faithful | ErrorAfterLanding | Incomplete

definition answer :: "(chain \<Rightarrow> 'a) \<Rightarrow> chain \<Rightarrow> (error + 'a) \<times> chain" where
  "answer f w =
     (if answers w = 0 then (Inl (Error ''unreachable''), w)
      else (Inr (f w), w\<lparr>answers := answers w - 1\<rparr>))"

definition apply_msg :: "int \<Rightarrow> behaviour \<Rightarrow> msg \<Rightarrow> chain \<Rightarrow> chain" where
  "apply_msg fee bh m w =
     (case m of
        MsgRegister q \<Rightarrow>
          if bh = Incomplete then w
          else if register_IsReputer q
            then w\<lparr>reputer_registered := True, funds := funds w - fee\<rparr>
            else w\<lparr>worker_registered := True, funds := funds w - fee\<rparr>
      | MsgAddStake q \<Rightarrow>
          if bh = Incomplete
            then w\<lparr>funds := funds w - stake_Amount q div 2,
                   staked := staked w + stake_Amount q div 2\<rparr>
            else w\<lparr>funds := funds w - stake_Amount q,
                   staked := staked w + stake_Amount q\<rparr>)"

definition sim_send ::
  "int \<Rightarrow> behaviour \<Rightarrow> msg \<Rightarrow> chain \<Rightarrow> (TxResponse option \<times> error option) \<times> chain" where
  "sim_send fee bh m w =
     (if answers w = 0 then ((None, Some (Error ''unreachable'')), w)
      else ((Some \<lparr>TxHash = ''A1''\<rparr>,
             if bh = ErrorAfterLanding then Some (Error ''timeout'') else None),
            (apply_msg fee bh m w)\<lparr>answers := answers w - 1\<rparr>))"

definition sim_client :: "int \<Rightarrow> behaviour \<Rightarrow> chain client" where
  "sim_client fee bh =
     \<lparr>IsWorkerRegistered = (\<lambda>t. answer worker_registered),
      IsReputerRegistered = (\<lambda>t. answer reputer_registered),
      GetParams = answer (\<lambda>w. \<lparr>RegistrationFee = fee\<rparr>),
      GetBalance = answer funds,
      GetReputerStakeInTopic = (\<lambda>t a. answer staked),
      SendDataWithRetry = sim_send fee bh\<rparr>"

definition fresh :: "chain \<Rightarrow> chain run" where
  "fresh w = \<lparr>world = w, history = []\<rparr>"

definition one_address :: NodeConfig where
  "one_address = \<lparr>Chain_Address = ''allo1node'', Wallet_Address = ''allo1node''\<rparr>"

definition two_addresses :: NodeConfig where
  "two_addresses = \<lparr>Chain_Address = ''allo1chain'', Wallet_Address = ''allo1wallet''\<rparr>"

definition on_topic :: WorkerConfig where
  "on_topic = \<lparr>worker_TopicId = 7\<rparr>"

definition stake_100 :: ReputerConfig where
  "stake_100 = \<lparr>reputer_TopicId = 7, MinStake = 100\<rparr>"

definition newcomer :: "int \<Rightarrow> nat \<Rightarrow> chain" where
  "newcomer b n =
     \<lparr>worker_registered = False, reputer_registered = False, funds = b, staked = 0,
      answers = n\<rparr>"

definition member :: "int \<Rightarrow> nat \<Rightarrow> chain" where
  "member k n =
     \<lparr>worker_registered = True, reputer_registered = True, funds = 500, staked = k,
      answers = n\<rparr>"

definition register_msg :: "address \<Rightarrow> bool \<Rightarrow> msg" where
  "register_msg a rep =
     MsgRegister \<lparr>register_Sender = a, register_TopicId = 7, register_Owner = a,
                  register_IsReputer = rep\<rparr>"

definition add_stake_msg :: "address \<Rightarrow> int \<Rightarrow> msg" where
  "add_stake_msg a n = MsgAddStake \<lparr>stake_Sender = a, stake_Amount = n, stake_TopicId = 7\<rparr>"

definition sent :: "TxResponse option \<times> error option" where
  "sent = (Some \<lparr>TxHash = ''A1''\<rparr>, None)"

definition timed_out :: "TxResponse option \<times> error option" where
  "timed_out = (Some \<lparr>TxHash = ''A1''\<rparr>, Some (Error ''timeout''))"

definition unreachable :: error where
  "unreachable = Error ''unreachable''"

definition fee_100 :: ModuleParams where
  "fee_100 = \<lparr>RegistrationFee = 100\<rparr>"

lemmas sim_defs =
  RegisterWorkerIdempotently_def RegisterAndStakeReputerIdempotently_def stake_phase_def
  call_IsWorkerRegistered_def call_IsReputerRegistered_def call_GetParams_def
  call_GetBalance_def call_GetReputerStakeInTopic_def call_SendDataWithRetry_def
  perform_def sim_client_def sim_send_def apply_msg_def answer_def fresh_def
  one_address_def two_addresses_def on_topic_def stake_100_def newcomer_def member_def
  worker_events_def reputer_events_def new_events_def NewInt_def
  register_msg_def add_stake_msg_def sent_def timed_out_def unreachable_def fee_100_def

section \<open>Properties\<close>

lemma perform_log:
  assumes "perform op ev s = (r, s')"
  shows "history s' = history s @ [ev r]"
  using assms by (auto simp: perform_def split: prod.splits)

lemma worker_log:
  assumes "RegisterWorkerIdempotently cl node config s0 = (r, s)"
  shows "\<exists>t. history s = history s0 @ t \<and> worker_paths node config t r"
  using assms
  unfolding RegisterWorkerIdempotently_def call_IsWorkerRegistered_def call_GetParams_def
    call_GetBalance_def call_SendDataWithRetry_def Let_def
  by (auto split: prod.splits sum.splits if_splits option.splits
      dest!: perform_log intro!: worker_paths.intros)

lemma stake_log:
  assumes "stake_phase cl node config s0 = (r, s)"
  shows "\<exists>t. history s = history s0 @ t \<and> stake_paths node config t r"
  using assms
  unfolding stake_phase_def call_GetReputerStakeInTopic_def call_SendDataWithRetry_def Let_def
  by (auto split: prod.splits sum.splits if_splits option.splits
      dest!: perform_log intro!: stake_paths.intros)

lemma reputer_log:
  assumes "RegisterAndStakeReputerIdempotently cl node config s0 = (r, s)"
  shows "\<exists>t. history s = history s0 @ t \<and> reputer_paths node config t r"
  using assms
  unfolding RegisterAndStakeReputerIdempotently_def call_IsReputerRegistered_def
    call_GetParams_def call_GetBalance_def call_SendDataWithRetry_def Let_def
  by (auto split: prod.splits sum.splits if_splits option.splits
      dest!: perform_log stake_log intro!: reputer_paths.intros)

lemma worker_events_paths:
  "worker_paths node config (worker_events cl node config s0)
     (fst (RegisterWorkerIdempotently cl node config s0))"
proof -
  obtain r s where run: "RegisterWorkerIdempotently cl node config s0 = (r, s)"
    by (cases "RegisterWorkerIdempotently cl node config s0")
  from worker_log [OF run] obtain t
    where "history s = history s0 @ t" and "worker_paths node config t r" by blast
  then show ?thesis by (simp add: worker_events_def new_events_def run)
qed

lemma reputer_events_paths:
  "reputer_paths node config (reputer_events cl node config s0)
     (fst (RegisterAndStakeReputerIdempotently cl node config s0))"
proof -
  obtain r s where run: "RegisterAndStakeReputerIdempotently cl node config s0 = (r, s)"
    by (cases "RegisterAndStakeReputerIdempotently cl node config s0")
  from reputer_log [OF run] obtain t
    where "history s = history s0 @ t" and "reputer_paths node config t r" by blast
  then show ?thesis by (simp add: reputer_events_def new_events_def run)
qed

subsection \<open>Occurrences of an event in a log\<close>

lemma occurs_Cons:
  "(pre @ e # post = x # xs) \<longleftrightarrow>
     (pre = [] \<and> e = x \<and> post = xs) \<or> (\<exists>pre'. pre = x # pre' \<and> pre' @ e # post = xs)"
  by (cases pre) auto

lemma Cons_occurs:
  "(x # xs = pre @ e # post) \<longleftrightarrow>
     (pre = [] \<and> e = x \<and> post = xs) \<or> (\<exists>pre'. pre = x # pre' \<and> pre' @ e # post = xs)"
  by (cases pre) auto

subsection \<open>After a Register submission\<close>

lemma worker_after_register:
  assumes "worker_events cl node config s =
             pre @ EvSendDataWithRetry (MsgRegister q) (res, err) # post"
  shows "case err of
           Some e \<Rightarrow> post = [] \<and> \<not> fst (RegisterWorkerIdempotently cl node config s)
         | None \<Rightarrow>
             \<exists>x. post = [EvIsWorkerRegistered (worker_TopicId config) x] \<and>
                 fst (RegisterWorkerIdempotently cl node config s) = (x = Inr True)"
  using worker_events_paths [of node config cl s] assms
  by (auto elim!: worker_paths.cases simp: occurs_Cons split: option.splits)

lemma reputer_after_register:
  assumes "reputer_events cl node config s =
             pre @ EvSendDataWithRetry (MsgRegister q) (res, err) # post"
  shows "case err of
           Some e \<Rightarrow>
             post = [] \<and> \<not> fst (RegisterAndStakeReputerIdempotently cl node config s)
         | None \<Rightarrow>
             \<exists>x rest. post = EvIsReputerRegistered (reputer_TopicId config) x # rest \<and>
               (x \<noteq> Inr True \<longrightarrow>
                  rest = [] \<and> \<not> fst (RegisterAndStakeReputerIdempotently cl node config s)) \<and>
               (x = Inr True \<longrightarrow> first_stake_read rest \<noteq> None)"
  using reputer_events_paths [of node config cl s] assms
  by (auto elim!: reputer_paths.cases stake_paths.cases simp: occurs_Cons split: option.splits)

text \<open>
  C1, as the code has it. On both paths a Register submission that reports an error is
  the last call of the operation, which returns false without reading the registration
  status again. A submission that reports no error is followed by a fresh read of the
  registration status. On the worker path that read ends the call, and the result is
  true exactly when the read succeeds and returns true. On the reputer path a failed
  read or a read that returns false ends the call with false, and a read that returns
  true is followed by the stake phase, which begins with a stake read.
\<close>

theorem register_submit_then_recheck:
  "(worker_events wcl wnode wconfig ws =
      wpre @ EvSendDataWithRetry (MsgRegister wq) (wres, werr) # wpost \<longrightarrow>
      (case werr of
         Some e \<Rightarrow>
           wpost = [] \<and> \<not> fst (RegisterWorkerIdempotently wcl wnode wconfig ws)
       | None \<Rightarrow>
           \<exists>x. wpost = [EvIsWorkerRegistered (worker_TopicId wconfig) x] \<and>
               fst (RegisterWorkerIdempotently wcl wnode wconfig ws) = (x = Inr True))) \<and>
   (reputer_events rcl rnode rconfig rs =
      rpre @ EvSendDataWithRetry (MsgRegister rq) (rres, rerr) # rpost \<longrightarrow>
      (case rerr of
         Some e \<Rightarrow>
           rpost = [] \<and> \<not> fst (RegisterAndStakeReputerIdempotently rcl rnode rconfig rs)
       | None \<Rightarrow>
           \<exists>x rest. rpost = EvIsReputerRegistered (reputer_TopicId rconfig) x # rest \<and>
             (x \<noteq> Inr True \<longrightarrow>
                rest = [] \<and>
                \<not> fst (RegisterAndStakeReputerIdempotently rcl rnode rconfig rs)) \<and>
             (x = Inr True \<longrightarrow> first_stake_read rest \<noteq> None)))"
  using worker_after_register [of wcl wnode wconfig ws wpre wq wres werr wpost]
    reputer_after_register [of rcl rnode rconfig rs rpre rq rres rerr rpost]
  by blast

theorem register_submit_then_recheck_witness:
  "worker_events (sim_client 100 Faithful) one_address on_topic (fresh (newcomer 100 9)) =
     [EvIsWorkerRegistered 7 (Inr False), EvGetParams (Inr fee_100), EvGetBalance (Inr 100)] @
     EvSendDataWithRetry (register_msg ''allo1node'' False) sent #
     [EvIsWorkerRegistered 7 (Inr True)] \<and>
   fst (RegisterWorkerIdempotently (sim_client 100 Faithful) one_address on_topic
          (fresh (newcomer 100 9))) \<and>
   reputer_events (sim_client 100 Incomplete) one_address stake_100 (fresh (newcomer 300 9)) =
     [EvIsReputerRegistered 7 (Inr False), EvGetBalance (Inr 300), EvGetParams (Inr fee_100)] @
     EvSendDataWithRetry (register_msg ''allo1node'' True) sent #
     [EvIsReputerRegistered 7 (Inr False)] \<and>
   \<not> fst (RegisterAndStakeReputerIdempotently (sim_client 100 Incomplete) one_address stake_100
            (fresh (newcomer 300 9)))"
  using register_submit_then_recheck
    [where wcl = "sim_client 100 Faithful" and wnode = one_address and wconfig = on_topic
       and ws = "fresh (newcomer 100 9)"
       and wpre = "[EvIsWorkerRegistered 7 (Inr False), EvGetParams (Inr fee_100),
                    EvGetBalance (Inr 100)]"
       and wq = "\<lparr>register_Sender = ''allo1node'', register_TopicId = 7,
                  register_Owner = ''allo1node'', register_IsReputer = False\<rparr>"
       and wres = "Some \<lparr>TxHash = ''A1''\<rparr>" and werr = None
       and wpost = "[EvIsWorkerRegistered 7 (Inr True)]"
       and rcl = "sim_client 100 Incomplete" and rnode = one_address and rconfig = stake_100
       and rs = "fresh (newcomer 300 9)"
       and rpre = "[EvIsReputerRegistered 7 (Inr False), EvGetBalance (Inr 300),
                    EvGetParams (Inr fee_100)]"
       and rq = "\<lparr>register_Sender = ''allo1node'', register_TopicId = 7,
                  register_Owner = ''allo1node'', register_IsReputer = True\<rparr>"
       and rres = "Some \<lparr>TxHash = ''A1''\<rparr>" and rerr = None
       and rpost = "[EvIsReputerRegistered 7 (Inr False)]"]
  by (simp add: sim_defs)

text \<open>
  C1 as stated fails. The ledger applies the registration and the submission reports a
  timeout: a read of the registration status after the call returns true, but the call
  has returned false, and the submission is the last call in its log. The same on the
  reputer path.
\<close>

theorem register_submit_error_counterexample:
  "\<not> fst (RegisterWorkerIdempotently (sim_client 100 ErrorAfterLanding) one_address on_topic
           (fresh (newcomer 100 9))) \<and>
   worker_events (sim_client 100 ErrorAfterLanding) one_address on_topic
     (fresh (newcomer 100 9)) =
     [EvIsWorkerRegistered 7 (Inr False), EvGetParams (Inr fee_100), EvGetBalance (Inr 100),
      EvSendDataWithRetry (register_msg ''allo1node'' False) timed_out] \<and>
   fst (IsWorkerRegistered (sim_client 100 ErrorAfterLanding) 7
          (world (snd (RegisterWorkerIdempotently (sim_client 100 ErrorAfterLanding)
             one_address on_topic (fresh (newcomer 100 9)))))) = Inr True \<and>
   \<not> fst (RegisterAndStakeReputerIdempotently (sim_client 100 ErrorAfterLanding) one_address
           stake_100 (fresh (newcomer 300 9))) \<and>
   reputer_events (sim_client 100 ErrorAfterLanding) one_address stake_100
     (fresh (newcomer 300 9)) =
     [EvIsReputerRegistered 7 (Inr False), EvGetBalance (Inr 300), EvGetParams (Inr fee_100),
      EvSendDataWithRetry (register_msg ''allo1node'' True) timed_out] \<and>
   fst (IsReputerRegistered (sim_client 100 ErrorAfterLanding) 7
          (world (snd (RegisterAndStakeReputerIdempotently (sim_client 100 ErrorAfterLanding)
             one_address stake_100 (fresh (newcomer 300 9)))))) = Inr True"
  by (simp add: sim_defs)

subsection \<open>After an AddStake submission\<close>

text \<open>
  C2, as the code has it. An AddStake submission that reports an error is the last call
  of the operation, which returns false without reading the stake again. A submission
  that reports no error is followed by one fresh stake read, which ends the call: the
  result is true exactly when that read succeeds and the stake it returns is at least
  MinStake.
\<close>

theorem add_stake_submit_then_recheck:
  "reputer_events cl node config s =
     pre @ EvSendDataWithRetry (MsgAddStake q) (res, err) # post \<longrightarrow>
   (case err of
      Some e \<Rightarrow> post = [] \<and> \<not> fst (RegisterAndStakeReputerIdempotently cl node config s)
    | None \<Rightarrow>
        \<exists>x. post = [EvGetReputerStakeInTopic (reputer_TopicId config) (Chain_Address node) x] \<and>
            fst (RegisterAndStakeReputerIdempotently cl node config s) =
              (\<exists>S. x = Inr S \<and> NewInt (MinStake config) \<le> S))"
  using reputer_events_paths [of node config cl s]
  by (auto elim!: reputer_paths.cases stake_paths.cases simp: occurs_Cons Cons_occurs
      split: option.splits)

theorem add_stake_submit_then_recheck_witness:
  "reputer_events (sim_client 100 Incomplete) one_address stake_100 (fresh (member 40 9)) =
     [EvIsReputerRegistered 7 (Inr True), EvGetReputerStakeInTopic 7 ''allo1node'' (Inr 40)] @
     EvSendDataWithRetry (add_stake_msg ''allo1node'' 60) sent #
     [EvGetReputerStakeInTopic 7 ''allo1node'' (Inr 70)] \<and>
   NewInt (MinStake stake_100) = 100 \<and>
   \<not> fst (RegisterAndStakeReputerIdempotently (sim_client 100 Incomplete) one_address stake_100
            (fresh (member 40 9)))"
  using add_stake_submit_then_recheck
    [where cl = "sim_client 100 Incomplete" and node = one_address and config = stake_100
       and s = "fresh (member 40 9)"
       and pre = "[EvIsReputerRegistered 7 (Inr True),
                   EvGetReputerStakeInTopic 7 ''allo1node'' (Inr 40)]"
       and q = "\<lparr>stake_Sender = ''allo1node'', stake_Amount = 60, stake_TopicId = 7\<rparr>"
       and res = "Some \<lparr>TxHash = ''A1''\<rparr>" and err = None
       and post = "[EvGetReputerStakeInTopic 7 ''allo1node'' (Inr 70)]"]
  by (simp add: sim_defs)

text \<open>
  C2 as stated fails. The ledger applies the whole top-up of 60 to a stake of 40 and the
  submission reports a timeout: a stake read after the call returns 100, which is
  MinStake, but the call has returned false, and the submission is the last call in
  its log.
\<close>

theorem add_stake_submit_error_counterexample:
  "\<not> fst (RegisterAndStakeReputerIdempotently (sim_client 100 ErrorAfterLanding) one_address
           stake_100 (fresh (member 40 9))) \<and>
   reputer_events (sim_client 100 ErrorAfterLanding) one_address stake_100
     (fresh (member 40 9)) =
     [EvIsReputerRegistered 7 (Inr True), EvGetReputerStakeInTopic 7 ''allo1node'' (Inr 40),
      EvSendDataWithRetry (add_stake_msg ''allo1node'' 60) timed_out] \<and>
   fst (GetReputerStakeInTopic (sim_client 100 ErrorAfterLanding) 7 ''allo1node''
          (world (snd (RegisterAndStakeReputerIdempotently (sim_client 100 ErrorAfterLanding)
             one_address stake_100 (fresh (member 40 9)))))) = Inr 100 \<and>
   NewInt (MinStake stake_100) \<le> 100"
  by (simp add: sim_defs)


subsection \<open>Who signs what\<close>

text \<open>
  In every call of the reputer path the Register request has the chain address of the
  node as sender and owner, and the AddStake request has its wallet address as sender.
\<close>

lemma request_addresses:
  "(\<forall>q \<in> set (register_requests (reputer_events cl node config s)).
      register_Sender q = Chain_Address node \<and> register_Owner q = Chain_Address node) \<and>
   (\<forall>q \<in> set (add_stake_requests (reputer_events cl node config s)).
      stake_Sender q = Wallet_Address node)"
  using reputer_events_paths [of node config cl s]
  by (auto elim!: reputer_paths.cases stake_paths.cases)

text \<open>
  C3 at a node whose chain address and wallet address differ: an unregistered reputer
  with funds registers and stakes. The Register request is sent and owned by
  \<open>allo1chain\<close>, both stake reads ask for \<open>allo1chain\<close>, and the AddStake request is
  sent by \<open>allo1wallet\<close>.
\<close>

theorem add_stake_sender_is_wallet_address:
  "RegisterAndStakeReputerIdempotently (sim_client 100 Faithful)
     \<lparr>Chain_Address = ''allo1chain'', Wallet_Address = ''allo1wallet''\<rparr>
     \<lparr>reputer_TopicId = 7, MinStake = 100\<rparr>
     \<lparr>world = \<lparr>worker_registered = False, reputer_registered = False, funds = 300,
               staked = 0, answers = 9\<rparr>,
      history = []\<rparr> =
   (True,
    \<lparr>world = \<lparr>worker_registered = False, reputer_registered = True, funds = 100,
              staked = 100, answers = 1\<rparr>,
     history =
       [EvIsReputerRegistered 7 (Inr False),
        EvGetBalance (Inr 300),
        EvGetParams (Inr \<lparr>RegistrationFee = 100\<rparr>),
        EvSendDataWithRetry
          (MsgRegister \<lparr>register_Sender = ''allo1chain'', register_TopicId = 7,
                        register_Owner = ''allo1chain'', register_IsReputer = True\<rparr>)
          (Some \<lparr>TxHash = ''A1''\<rparr>, None),
        EvIsReputerRegistered 7 (Inr True),
        EvGetReputerStakeInTopic 7 ''allo1chain'' (Inr 0),
        EvSendDataWithRetry
          (MsgAddStake \<lparr>stake_Sender = ''allo1wallet'', stake_Amount = 100,
                        stake_TopicId = 7\<rparr>)
          (Some \<lparr>TxHash = ''A1''\<rparr>, None),
        EvGetReputerStakeInTopic 7 ''allo1chain'' (Inr 100)]\<rparr>)"
  by (simp add: sim_defs)

subsection \<open>The stake top-up\<close>

text \<open>
  C4. Let S be the stake that the first stake read of a reputer call returns and M the
  MinStake of the configuration. If S < M, the call submits exactly one AddStake, for
  the amount M - S. If M \<le> S, it submits no AddStake and returns true. Every AddStake
  that a call submits has a positive amount.
\<close>

theorem stake_top_up_is_the_delta:
  "(first_stake_read (reputer_events cl node config s) = Some (Inr S) \<longrightarrow>
      (S < NewInt (MinStake config) \<longrightarrow>
         map stake_Amount (add_stake_requests (reputer_events cl node config s)) =
           [NewInt (MinStake config) - S]) \<and>
      (NewInt (MinStake config) \<le> S \<longrightarrow>
         add_stake_requests (reputer_events cl node config s) = [] \<and>
         fst (RegisterAndStakeReputerIdempotently cl node config s))) \<and>
   (\<forall>q \<in> set (add_stake_requests (reputer_events cl node config s)). 0 < stake_Amount q)"
  using reputer_events_paths [of node config cl s]
  by (auto elim!: reputer_paths.cases stake_paths.cases)

theorem stake_top_up_is_the_delta_witness:
  "first_stake_read
     (reputer_events (sim_client 100 Faithful) one_address stake_100 (fresh (member 40 9))) =
     Some (Inr 40) \<and>
   40 < NewInt (MinStake stake_100) \<and>
   map stake_Amount (add_stake_requests
     (reputer_events (sim_client 100 Faithful) one_address stake_100 (fresh (member 40 9)))) =
     [NewInt (MinStake stake_100) - 40] \<and>
   first_stake_read
     (reputer_events (sim_client 100 Faithful) one_address stake_100 (fresh (member 150 9))) =
     Some (Inr 150) \<and>
   NewInt (MinStake stake_100) \<le> 150 \<and>
   add_stake_requests
     (reputer_events (sim_client 100 Faithful) one_address stake_100 (fresh (member 150 9))) =
     [] \<and>
   fst (RegisterAndStakeReputerIdempotently (sim_client 100 Faithful) one_address stake_100
          (fresh (member 150 9)))"
  using stake_top_up_is_the_delta
    [where cl = "sim_client 100 Faithful" and node = one_address and config = stake_100
       and s = "fresh (member 40 9)" and S = 40]
    stake_top_up_is_the_delta
    [where cl = "sim_client 100 Faithful" and node = one_address and config = stake_100
       and s = "fresh (member 150 9)" and S = 150]
  by (simp add: sim_defs)

subsection \<open>Underfunded registration\<close>

lemma worker_underfunded_no_register:
  "EvGetBalance (Inr b) \<in> set (worker_events cl node config s) \<and>
   EvGetParams (Inr p) \<in> set (worker_events cl node config s) \<and>
   b < RegistrationFee p \<longrightarrow>
     register_requests (worker_events cl node config s) = [] \<and>
     \<not> fst (RegisterWorkerIdempotently cl node config s)"
  using worker_events_paths [of node config cl s]
  by (auto elim!: worker_paths.cases)

lemma reputer_underfunded_no_register:
  "EvGetBalance (Inr b) \<in> set (reputer_events cl node config s) \<and>
   EvGetParams (Inr p) \<in> set (reputer_events cl node config s) \<and>
   b < RegistrationFee p \<longrightarrow>
     register_requests (reputer_events cl node config s) = [] \<and>
     \<not> fst (RegisterAndStakeReputerIdempotently cl node config s)"
  using reputer_events_paths [of node config cl s]
  by (auto elim!: reputer_paths.cases stake_paths.cases)

text \<open>
  C5. On either path, when the balance that the call reads is strictly less than the
  registration fee that it reads, the call submits no Register request and returns
  false. (A call reads the balance only when the identity is not yet registered.)
\<close>

theorem no_register_when_underfunded:
  "(EvGetBalance (Inr wb) \<in> set (worker_events wcl wnode wconfig ws) \<and>
    EvGetParams (Inr wp) \<in> set (worker_events wcl wnode wconfig ws) \<and>
    wb < RegistrationFee wp \<longrightarrow>
      register_requests (worker_events wcl wnode wconfig ws) = [] \<and>
      \<not> fst (RegisterWorkerIdempotently wcl wnode wconfig ws)) \<and>
   (EvGetBalance (Inr rb) \<in> set (reputer_events rcl rnode rconfig rs) \<and>
    EvGetParams (Inr rp) \<in> set (reputer_events rcl rnode rconfig rs) \<and>
    rb < RegistrationFee rp \<longrightarrow>
      register_requests (reputer_events rcl rnode rconfig rs) = [] \<and>
      \<not> fst (RegisterAndStakeReputerIdempotently rcl rnode rconfig rs))"
  by (rule conjI [OF worker_underfunded_no_register reputer_underfunded_no_register])

theorem no_register_when_underfunded_witness:
  "worker_events (sim_client 100 Faithful) one_address on_topic (fresh (newcomer 99 9)) =
     [EvIsWorkerRegistered 7 (Inr False), EvGetParams (Inr fee_100), EvGetBalance (Inr 99)] \<and>
   99 < RegistrationFee fee_100 \<and>
   register_requests
     (worker_events (sim_client 100 Faithful) one_address on_topic (fresh (newcomer 99 9))) =
     [] \<and>
   \<not> fst (RegisterWorkerIdempotently (sim_client 100 Faithful) one_address on_topic
            (fresh (newcomer 99 9))) \<and>
   reputer_events (sim_client 100 Faithful) one_address stake_100 (fresh (newcomer 99 9)) =
     [EvIsReputerRegistered 7 (Inr False), EvGetBalance (Inr 99), EvGetParams (Inr fee_100)] \<and>
   register_requests
     (reputer_events (sim_client 100 Faithful) one_address stake_100 (fresh (newcomer 99 9))) =
     [] \<and>
   \<not> fst (RegisterAndStakeReputerIdempotently (sim_client 100 Faithful) one_address stake_100
            (fresh (newcomer 99 9)))"
  using no_register_when_underfunded
    [where wcl = "sim_client 100 Faithful" and wnode = one_address and wconfig = on_topic
       and ws = "fresh (newcomer 99 9)" and wb = 99 and wp = fee_100
       and rcl = "sim_client 100 Faithful" and rnode = one_address and rconfig = stake_100
       and rs = "fresh (newcomer 99 9)" and rb = 99 and rp = fee_100]
  by (simp add: sim_defs)

subsection \<open>An identity that is registered already\<close>

lemma worker_already_registered:
  assumes "fst (IsWorkerRegistered cl (worker_TopicId config) (world s)) = Inr True"
  shows "RegisterWorkerIdempotently cl node config s =
           (True,
            \<lparr>world = snd (IsWorkerRegistered cl (worker_TopicId config) (world s)),
             history = history s @ [EvIsWorkerRegistered (worker_TopicId config) (Inr True)]\<rparr>)"
proof -
  obtain w where "IsWorkerRegistered cl (worker_TopicId config) (world s) = (Inr True, w)"
    using assms by (cases "IsWorkerRegistered cl (worker_TopicId config) (world s)") simp
  then show ?thesis
    by (simp add: RegisterWorkerIdempotently_def call_IsWorkerRegistered_def perform_def)
qed

lemma worker_already_only_reads:
  assumes "fst (IsWorkerRegistered cl (worker_TopicId config) (world s)) = Inr True"
  shows "fst (RegisterWorkerIdempotently cl node config s) \<and>
         worker_events cl node config s =
           [EvIsWorkerRegistered (worker_TopicId config) (Inr True)]"
  by (simp add: worker_already_registered [OF assms] worker_events_def new_events_def)

text \<open>
  C6. If the registration-status read at the start of a worker call reports the identity
  registered, the call returns true and that read is its only call of the client: it
  submits nothing. Hence, if the identity is reported registered again at the start of
  a second call made right after the first, the second call returns true as well and
  submits nothing either.
\<close>

theorem worker_registration_idempotent:
  "fst (IsWorkerRegistered cl (worker_TopicId config) (world s)) = Inr True \<longrightarrow>
     fst (RegisterWorkerIdempotently cl node config s) \<and>
     worker_events cl node config s = [EvIsWorkerRegistered (worker_TopicId config) (Inr True)] \<and>
     filter is_submission (worker_events cl node config s) = [] \<and>
     (fst (IsWorkerRegistered cl (worker_TopicId config)
         (world (snd (RegisterWorkerIdempotently cl node config s)))) = Inr True \<longrightarrow>
        fst (RegisterWorkerIdempotently cl node config
               (snd (RegisterWorkerIdempotently cl node config s))) \<and>
        worker_events cl node config (snd (RegisterWorkerIdempotently cl node config s)) =
          [EvIsWorkerRegistered (worker_TopicId config) (Inr True)] \<and>
        filter is_submission
          (worker_events cl node config (snd (RegisterWorkerIdempotently cl node config s))) =
          [])"
  using worker_already_only_reads [of cl config s node]
    worker_already_only_reads
      [of cl config "snd (RegisterWorkerIdempotently cl node config s)" node]
  by simp

theorem worker_registration_idempotent_witness:
  "fst (IsWorkerRegistered (sim_client 100 Faithful) (worker_TopicId on_topic)
          (world (fresh (member 0 9)))) = Inr True \<and>
   fst (RegisterWorkerIdempotently (sim_client 100 Faithful) one_address on_topic
          (fresh (member 0 9))) \<and>
   fst (IsWorkerRegistered (sim_client 100 Faithful) (worker_TopicId on_topic)
          (world (snd (RegisterWorkerIdempotently (sim_client 100 Faithful) one_address
             on_topic (fresh (member 0 9)))))) = Inr True \<and>
   fst (RegisterWorkerIdempotently (sim_client 100 Faithful) one_address on_topic
          (snd (RegisterWorkerIdempotently (sim_client 100 Faithful) one_address on_topic
             (fresh (member 0 9))))) \<and>
   history (snd (RegisterWorkerIdempotently (sim_client 100 Faithful) one_address on_topic
          (snd (RegisterWorkerIdempotently (sim_client 100 Faithful) one_address on_topic
             (fresh (member 0 9)))))) =
     [EvIsWorkerRegistered 7 (Inr True), EvIsWorkerRegistered 7 (Inr True)]"
  using worker_registration_idempotent
    [where cl = "sim_client 100 Faithful" and node = one_address and config = on_topic
       and s = "fresh (member 0 9)"]
  by (simp add: sim_defs)


subsection \<open>Registration before stake\<close>

text \<open>
  C7. In a reputer call every AddStake submission comes after a registration-status read
  of that call that returned true. If the read that follows a Register submission
  returns false, the call ends there with false: it makes no stake read and submits no
  AddStake.
\<close>

theorem stake_only_after_confirmed_registration:
  "(reputer_events cl node config s = pre @ EvSendDataWithRetry (MsgAddStake q) x # post \<longrightarrow>
      EvIsReputerRegistered (reputer_TopicId config) (Inr True) \<in> set pre) \<and>
   (reputer_events cl node config s =
      rpre @ EvSendDataWithRetry (MsgRegister rq) rx #
        EvIsReputerRegistered t (Inr False) # rpost \<longrightarrow>
      \<not> fst (RegisterAndStakeReputerIdempotently cl node config s) \<and> rpost = [] \<and>
      first_stake_read (reputer_events cl node config s) = None \<and>
      add_stake_requests (reputer_events cl node config s) = [])"
  using reputer_events_paths [of node config cl s]
  by (auto elim!: reputer_paths.cases stake_paths.cases simp: occurs_Cons Cons_occurs)

theorem stake_only_after_confirmed_registration_witness:
  "reputer_events (sim_client 100 Faithful) one_address stake_100 (fresh (newcomer 300 9)) =
     [EvIsReputerRegistered 7 (Inr False), EvGetBalance (Inr 300), EvGetParams (Inr fee_100),
      EvSendDataWithRetry (register_msg ''allo1node'' True) sent,
      EvIsReputerRegistered 7 (Inr True),
      EvGetReputerStakeInTopic 7 ''allo1node'' (Inr 0)] @
     EvSendDataWithRetry (add_stake_msg ''allo1node'' 100) sent #
     [EvGetReputerStakeInTopic 7 ''allo1node'' (Inr 100)] \<and>
   reputer_events (sim_client 100 Incomplete) one_address stake_100 (fresh (newcomer 300 9)) =
     [EvIsReputerRegistered 7 (Inr False), EvGetBalance (Inr 300), EvGetParams (Inr fee_100)] @
     EvSendDataWithRetry (register_msg ''allo1node'' True) sent #
     EvIsReputerRegistered 7 (Inr False) # [] \<and>
   \<not> fst (RegisterAndStakeReputerIdempotently (sim_client 100 Incomplete) one_address stake_100
            (fresh (newcomer 300 9)))"
  using stake_only_after_confirmed_registration
    [where cl = "sim_client 100 Faithful" and node = one_address and config = stake_100
       and s = "fresh (newcomer 300 9)"
       and pre = "[EvIsReputerRegistered 7 (Inr False), EvGetBalance (Inr 300),
                   EvGetParams (Inr fee_100),
                   EvSendDataWithRetry (register_msg ''allo1node'' True) sent,
                   EvIsReputerRegistered 7 (Inr True),
                   EvGetReputerStakeInTopic 7 ''allo1node'' (Inr 0)]"
       and q = "\<lparr>stake_Sender = ''allo1node'', stake_Amount = 100, stake_TopicId = 7\<rparr>"
       and x = sent and post = "[EvGetReputerStakeInTopic 7 ''allo1node'' (Inr 100)]"]
    stake_only_after_confirmed_registration
    [where cl = "sim_client 100 Incomplete" and node = one_address and config = stake_100
       and s = "fresh (newcomer 300 9)"
       and rpre = "[EvIsReputerRegistered 7 (Inr False), EvGetBalance (Inr 300),
                    EvGetParams (Inr fee_100)]"
       and rq = "\<lparr>register_Sender = ''allo1node'', register_TopicId = 7,
                  register_Owner = ''allo1node'', register_IsReputer = True\<rparr>"
       and rx = sent and t = 7 and rpost = "[]"]
  by (simp add: sim_defs)

subsection \<open>True comes from a read\<close>

lemma worker_true_from_read:
  "fst (RegisterWorkerIdempotently cl node config s) \<longrightarrow>
     worker_events cl node config s \<noteq> [] \<and>
     last (worker_events cl node config s) =
       EvIsWorkerRegistered (worker_TopicId config) (Inr True) \<and>
     \<not> is_submission (last (worker_events cl node config s))"
  using worker_events_paths [of node config cl s]
  by (auto elim!: worker_paths.cases)

lemma reputer_true_from_read:
  "fst (RegisterAndStakeReputerIdempotently cl node config s) \<longrightarrow>
     reputer_events cl node config s \<noteq> [] \<and>
     (\<exists>S. last (reputer_events cl node config s) =
            EvGetReputerStakeInTopic (reputer_TopicId config) (Chain_Address node) (Inr S) \<and>
          NewInt (MinStake config) \<le> S) \<and>
     \<not> is_submission (last (reputer_events cl node config s))"
  using reputer_events_paths [of node config cl s]
  by (auto elim!: reputer_paths.cases stake_paths.cases)

text \<open>
  C8. When the worker call returns true, the last call it made to the client is a
  registration-status read that returned true. When the reputer call returns true, the
  last call it made is a stake read that returned a stake of at least MinStake. So the
  read that decides comes after every submission of the call, and the last call is
  never a submission.
\<close>

theorem true_only_from_fresh_read:
  "(fst (RegisterWorkerIdempotently wcl wnode wconfig ws) \<longrightarrow>
      worker_events wcl wnode wconfig ws \<noteq> [] \<and>
      last (worker_events wcl wnode wconfig ws) =
        EvIsWorkerRegistered (worker_TopicId wconfig) (Inr True) \<and>
      \<not> is_submission (last (worker_events wcl wnode wconfig ws))) \<and>
   (fst (RegisterAndStakeReputerIdempotently rcl rnode rconfig rs) \<longrightarrow>
      reputer_events rcl rnode rconfig rs \<noteq> [] \<and>
      (\<exists>S. last (reputer_events rcl rnode rconfig rs) =
             EvGetReputerStakeInTopic (reputer_TopicId rconfig) (Chain_Address rnode) (Inr S) \<and>
           NewInt (MinStake rconfig) \<le> S) \<and>
      \<not> is_submission (last (reputer_events rcl rnode rconfig rs)))"
  by (rule conjI [OF worker_true_from_read reputer_true_from_read])

theorem true_only_from_fresh_read_witness:
  "fst (RegisterWorkerIdempotently (sim_client 100 Faithful) one_address on_topic
          (fresh (newcomer 100 9))) \<and>
   last (worker_events (sim_client 100 Faithful) one_address on_topic
           (fresh (newcomer 100 9))) = EvIsWorkerRegistered 7 (Inr True) \<and>
   fst (RegisterAndStakeReputerIdempotently (sim_client 100 Faithful) one_address stake_100
          (fresh (member 40 9))) \<and>
   last (reputer_events (sim_client 100 Faithful) one_address stake_100
           (fresh (member 40 9))) = EvGetReputerStakeInTopic 7 ''allo1node'' (Inr 100)"
  using true_only_from_fresh_read
    [where wcl = "sim_client 100 Faithful" and wnode = one_address and wconfig = on_topic
       and ws = "fresh (newcomer 100 9)"
       and rcl = "sim_client 100 Faithful" and rnode = one_address and rconfig = stake_100
       and rs = "fresh (member 40 9)"]
  by (simp add: sim_defs)

subsection \<open>Failed reads\<close>

lemma worker_failed_read:
  "e \<in> set (worker_events cl node config s) \<and> is_failed_read e \<longrightarrow>
     \<not> fst (RegisterWorkerIdempotently cl node config s) \<and>
     last (worker_events cl node config s) = e"
  using worker_events_paths [of node config cl s]
  by (auto elim!: worker_paths.cases)

lemma worker_first_read_failed:
  "worker_events cl node config s = EvIsWorkerRegistered t (Inl err) # rest \<longrightarrow> rest = []"
  using worker_events_paths [of node config cl s]
  by (auto elim!: worker_paths.cases)

lemma reputer_failed_read:
  "e \<in> set (reputer_events cl node config s) \<and> is_failed_read e \<longrightarrow>
     \<not> fst (RegisterAndStakeReputerIdempotently cl node config s) \<and>
     last (reputer_events cl node config s) = e"
  using reputer_events_paths [of node config cl s]
  by (auto elim!: reputer_paths.cases stake_paths.cases)

lemma reputer_first_read_failed:
  "reputer_events cl node config s = EvIsReputerRegistered t (Inl err) # rest \<longrightarrow> rest = []"
  using reputer_events_paths [of node config cl s]
  by (auto elim!: reputer_paths.cases stake_paths.cases)

text \<open>
  C9. On either path, a read that fails (registration status, chain parameters, balance
  or stake, before or after a submission) is the last call of the operation, which
  returns false. When the first call, the registration-status read, fails, it is the
  only call: nothing is submitted.
\<close>

theorem failed_read_returns_false:
  "(we \<in> set (worker_events wcl wnode wconfig ws) \<and> is_failed_read we \<longrightarrow>
      \<not> fst (RegisterWorkerIdempotently wcl wnode wconfig ws) \<and>
      last (worker_events wcl wnode wconfig ws) = we) \<and>
   (worker_events wcl wnode wconfig ws = EvIsWorkerRegistered wt (Inl werr) # wrest \<longrightarrow>
      wrest = []) \<and>
   (re \<in> set (reputer_events rcl rnode rconfig rs) \<and> is_failed_read re \<longrightarrow>
      \<not> fst (RegisterAndStakeReputerIdempotently rcl rnode rconfig rs) \<and>
      last (reputer_events rcl rnode rconfig rs) = re) \<and>
   (reputer_events rcl rnode rconfig rs = EvIsReputerRegistered rt (Inl rerr) # rrest \<longrightarrow>
      rrest = [])"
  by (intro conjI worker_failed_read worker_first_read_failed reputer_failed_read
      reputer_first_read_failed)

theorem failed_read_returns_false_witness:
  "worker_events (sim_client 100 Faithful) one_address on_topic (fresh (newcomer 100 4)) =
     [EvIsWorkerRegistered 7 (Inr False), EvGetParams (Inr fee_100), EvGetBalance (Inr 100),
      EvSendDataWithRetry (register_msg ''allo1node'' False) sent,
      EvIsWorkerRegistered 7 (Inl unreachable)] \<and>
   is_failed_read (EvIsWorkerRegistered 7 (Inl unreachable)) \<and>
   \<not> fst (RegisterWorkerIdempotently (sim_client 100 Faithful) one_address on_topic
            (fresh (newcomer 100 4))) \<and>
   worker_events (sim_client 100 Faithful) one_address on_topic (fresh (newcomer 100 0)) =
     EvIsWorkerRegistered 7 (Inl unreachable) # [] \<and>
   reputer_events (sim_client 100 Faithful) one_address stake_100 (fresh (member 40 3)) =
     [EvIsReputerRegistered 7 (Inr True), EvGetReputerStakeInTopic 7 ''allo1node'' (Inr 40),
      EvSendDataWithRetry (add_stake_msg ''allo1node'' 60) sent,
      EvGetReputerStakeInTopic 7 ''allo1node'' (Inl unreachable)] \<and>
   is_failed_read (EvGetReputerStakeInTopic 7 ''allo1node'' (Inl unreachable)) \<and>
   \<not> fst (RegisterAndStakeReputerIdempotently (sim_client 100 Faithful) one_address stake_100
            (fresh (member 40 3))) \<and>
   reputer_events (sim_client 100 Faithful) one_address stake_100 (fresh (member 40 0)) =
     EvIsReputerRegistered 7 (Inl unreachable) # []"
  using failed_read_returns_false
    [where wcl = "sim_client 100 Faithful" and wnode = one_address and wconfig = on_topic
       and ws = "fresh (newcomer 100 4)" and we = "EvIsWorkerRegistered 7 (Inl unreachable)"
       and rcl = "sim_client 100 Faithful" and rnode = one_address and rconfig = stake_100
       and rs = "fresh (member 40 3)"
       and re = "EvGetReputerStakeInTopic 7 ''allo1node'' (Inl unreachable)"]
    failed_read_returns_false
    [where wcl = "sim_client 100 Faithful" and wnode = one_address and wconfig = on_topic
       and ws = "fresh (newcomer 100 0)" and wt = 7 and werr = unreachable and wrest = "[]"
       and rcl = "sim_client 100 Faithful" and rnode = one_address and rconfig = stake_100
       and rs = "fresh (member 40 0)" and rt = 7 and rerr = unreachable and rrest = "[]"]
  by (simp add: sim_defs)

subsection \<open>No funds check for a registered identity\<close>

lemma worker_registered_returns:
  "worker_events cl node config s = EvIsWorkerRegistered t (Inr True) # rest \<longrightarrow>
     rest = [] \<and> fst (RegisterWorkerIdempotently cl node config s)"
  using worker_events_paths [of node config cl s]
  by (auto elim!: worker_paths.cases)

lemma worker_funds_read_unregistered:
  "\<forall>e \<in> set (worker_events cl node config s). is_funds_read e \<longrightarrow>
     hd (worker_events cl node config s) =
       EvIsWorkerRegistered (worker_TopicId config) (Inr False)"
  using worker_events_paths [of node config cl s]
  by (auto elim!: worker_paths.cases)

lemma reputer_registered_to_stake:
  "reputer_events cl node config s = EvIsReputerRegistered t (Inr True) # rest \<longrightarrow>
     (\<forall>e \<in> set rest. \<not> is_funds_read e) \<and> register_requests rest = [] \<and>
     (\<exists>x rest'. rest =
        EvGetReputerStakeInTopic (reputer_TopicId config) (Chain_Address node) x # rest')"
  using reputer_events_paths [of node config cl s]
  by (auto elim!: reputer_paths.cases stake_paths.cases)

lemma reputer_funds_read_unregistered:
  "\<forall>e \<in> set (reputer_events cl node config s). is_funds_read e \<longrightarrow>
     hd (reputer_events cl node config s) =
       EvIsReputerRegistered (reputer_TopicId config) (Inr False)"
  using reputer_events_paths [of node config cl s]
  by (auto elim!: reputer_paths.cases stake_paths.cases)

text \<open>
  C10. If the first read of a call reports the identity registered, the call reads
  neither the balance nor the chain parameters. The worker call ends there with true.
  The reputer call goes on with the stake read and submits no Register request. On
  either path a call that reads the balance or the chain parameters has begun with a
  registration-status read that returned false.
\<close>

theorem registered_skips_funds_check:
  "(worker_events wcl wnode wconfig ws = EvIsWorkerRegistered wt (Inr True) # wrest \<longrightarrow>
      wrest = [] \<and> fst (RegisterWorkerIdempotently wcl wnode wconfig ws)) \<and>
   (\<forall>e \<in> set (worker_events wcl wnode wconfig ws). is_funds_read e \<longrightarrow>
      hd (worker_events wcl wnode wconfig ws) =
        EvIsWorkerRegistered (worker_TopicId wconfig) (Inr False)) \<and>
   (reputer_events rcl rnode rconfig rs = EvIsReputerRegistered rt (Inr True) # rrest \<longrightarrow>
      (\<forall>e \<in> set rrest. \<not> is_funds_read e) \<and> register_requests rrest = [] \<and>
      (\<exists>x rest. rrest =
         EvGetReputerStakeInTopic (reputer_TopicId rconfig) (Chain_Address rnode) x # rest)) \<and>
   (\<forall>e \<in> set (reputer_events rcl rnode rconfig rs). is_funds_read e \<longrightarrow>
      hd (reputer_events rcl rnode rconfig rs) =
        EvIsReputerRegistered (reputer_TopicId rconfig) (Inr False))"
  by (intro conjI worker_registered_returns worker_funds_read_unregistered
      reputer_registered_to_stake reputer_funds_read_unregistered)

theorem registered_skips_funds_check_witness:
  "worker_events (sim_client 100 Faithful) one_address on_topic (fresh (member 0 9)) =
     EvIsWorkerRegistered 7 (Inr True) # [] \<and>
   fst (RegisterWorkerIdempotently (sim_client 100 Faithful) one_address on_topic
          (fresh (member 0 9))) \<and>
   reputer_events (sim_client 100 Faithful) one_address stake_100 (fresh (member 150 9)) =
     EvIsReputerRegistered 7 (Inr True) #
     [EvGetReputerStakeInTopic 7 ''allo1node'' (Inr 150)] \<and>
   is_funds_read (EvGetBalance (Inr 99)) \<and>
   EvGetBalance (Inr 99) \<in>
     set (worker_events (sim_client 100 Faithful) one_address on_topic
            (fresh (newcomer 99 9))) \<and>
   hd (worker_events (sim_client 100 Faithful) one_address on_topic (fresh (newcomer 99 9))) =
     EvIsWorkerRegistered 7 (Inr False) \<and>
   EvGetBalance (Inr 99) \<in>
     set (reputer_events (sim_client 100 Faithful) one_address stake_100
            (fresh (newcomer 99 9))) \<and>
   hd (reputer_events (sim_client 100 Faithful) one_address stake_100
         (fresh (newcomer 99 9))) = EvIsReputerRegistered 7 (Inr False)"
  using registered_skips_funds_check
    [where wcl = "sim_client 100 Faithful" and wnode = one_address and wconfig = on_topic
       and ws = "fresh (member 0 9)" and wt = 7 and wrest = "[]"
       and rcl = "sim_client 100 Faithful" and rnode = one_address and rconfig = stake_100
       and rs = "fresh (member 150 9)" and rt = 7
       and rrest = "[EvGetReputerStakeInTopic 7 ''allo1node'' (Inr 150)]"]
    registered_skips_funds_check
    [where wcl = "sim_client 100 Faithful" and wnode = one_address and wconfig = on_topic
       and ws = "fresh (newcomer 99 9)"
       and rcl = "sim_client 100 Faithful" and rnode = one_address and rconfig = stake_100
       and rs = "fresh (newcomer 99 9)"]
  by (simp add: sim_defs)


end
